theory Spec2Isabelle
  imports Main "HOL-Library.Sublist"
begin

section \<open>JavaScript strings and regular expressions\<close>

text \<open>
  The services work on JavaScript strings. A string is modelled as a \<^typ>\<open>string\<close>, one
  \<^typ>\<open>char\<close> per UTF-16 code unit; the model covers the code units below 256
  (ISO-8859-1), which contain every character the patterns of the repository mention.
  \<open>length\<close> is the JavaScript \<open>.length\<close>.
\<close>

definition spaces :: "char list" where
  "spaces = [CHR 0x09, CHR 0x0A, CHR 0x0B, CHR 0x0C, CHR 0x0D, CHR 0x20, CHR 0xA0]"

definition lowers :: string where
  "lowers = ''abcdefghijklmnopqrstuvwxyz''"

definition uppers :: string where
  "uppers = ''ABCDEFGHIJKLMNOPQRSTUVWXYZ''"

definition digits :: string where
  "digits = ''0123456789''"

text \<open>White space and line terminators (\<open>\s\<close>, \<open>trim\<close>, \<open>trimEnd\<close>): TAB, LF, VT, FF, CR,
  SPACE and NBSP are the ones below 256.\<close>

definition isSpace :: "char \<Rightarrow> bool" where
  "isSpace c = (c \<in> set spaces)"

text \<open>\<open>\d\<close> is \<open>[0-9]\<close>, \<open>\w\<close> is \<open>[A-Za-z0-9_]\<close>.\<close>

definition isDigit :: "char \<Rightarrow> bool" where
  "isDigit c = (c \<in> set digits)"

definition isWord :: "char \<Rightarrow> bool" where
  "isWord c = (c \<in> set (lowers @ uppers @ digits @ ''_''))"

text \<open>\<open>.\<close> matches everything but the line terminators LF and CR.\<close>

definition isLineTerminator :: "char \<Rightarrow> bool" where
  "isLineTerminator c = (c = CHR 0x0A \<or> c = CHR 0x0D)"

text \<open>
  An ASCII letter and its other case differ in bit 5 (32) of the code unit, the sixth
  argument of \<^const>\<open>Char\<close>.
\<close>

fun bit5 :: "bool \<Rightarrow> char \<Rightarrow> char" where
  "bit5 b (Char b0 b1 b2 b3 b4 b5 b6 b7) = Char b0 b1 b2 b3 b4 b b6 b7"

text \<open>
  Case folding of the \<open>i\<close> flag (to upper case). Every pattern of the repository is ASCII,
  and without the \<open>u\<close> flag a code unit of 128 or more never folds to an ASCII one, so
  folding the ASCII letters is all that matching needs.
\<close>

definition canon :: "char \<Rightarrow> char" where
  "canon c = (if c \<in> set lowers then bit5 False c else c)"

text \<open>
  \<open>String.prototype.toLowerCase\<close> on the ASCII letters. The service only looks for ASCII
  words in the lowered text, and no code unit of 128 to 255 lowers to an ASCII one.
\<close>

definition lowerChar :: "char \<Rightarrow> char" where
  "lowerChar c = (if c \<in> set uppers then bit5 True c else c)"

definition toLowerCase :: "string \<Rightarrow> string" where
  "toLowerCase s = map lowerChar s"

text \<open>
  The same functions on the bits of a character, for evaluation. \<open>letterBits\<close>: the low
  five bits are between 1 and 26.
\<close>

definition letterBits :: "bool \<Rightarrow> bool \<Rightarrow> bool \<Rightarrow> bool \<Rightarrow> bool \<Rightarrow> bool" where
  "letterBits b0 b1 b2 b3 b4 =
     ((b0 \<or> b1 \<or> b2 \<or> b3 \<or> b4) \<and> \<not> (b4 \<and> b3 \<and> (b2 \<or> (b1 \<and> b0))))"

datatype cclass =
    Chr char              \<comment> \<open>a literal character\<close>
  | Dot                   \<comment> \<open>\<open>.\<close>\<close>
  | Space                 \<comment> \<open>\<open>\s\<close>\<close>
  | NonSpace              \<comment> \<open>\<open>[^\s]\<close>\<close>
  | WordC                 \<comment> \<open>\<open>\w\<close>\<close>
  | Digit                 \<comment> \<open>\<open>\d\<close>\<close>
  | OneOf "char list"     \<comment> \<open>\<open>[...]\<close>\<close>

fun cmatch :: "bool \<Rightarrow> cclass \<Rightarrow> char \<Rightarrow> bool" where
  "cmatch ic (Chr p) c = (if ic then canon c = canon p else c = p)"
| "cmatch ic Dot c = (\<not> isLineTerminator c)"
| "cmatch ic Space c = isSpace c"
| "cmatch ic NonSpace c = (\<not> isSpace c)"
| "cmatch ic WordC c = isWord c"
| "cmatch ic Digit c = isDigit c"
| "cmatch ic (OneOf ps) c = (if ic then canon c \<in> set (map canon ps) else c \<in> set ps)"

text \<open>
  A pattern is a list of alternatives (\<open>|\<close>), an alternative a list of items: a character
  class, alone or under a greedy quantifier, or an assertion. The quantifiers of the
  repository only ever apply to one character class.
\<close>

datatype item =
    One cclass      \<comment> \<open>\<open>c\<close>\<close>
  | Star cclass     \<comment> \<open>\<open>c*\<close>\<close>
  | Plus cclass     \<comment> \<open>\<open>c+\<close>\<close>
  | Opt cclass      \<comment> \<open>\<open>c?\<close>\<close>
  | WordB           \<comment> \<open>\<open>\b\<close>\<close>
  | Bol             \<comment> \<open>\<open>^\<close> (no \<open>m\<close> flag: start of input)\<close>
  | Eol             \<comment> \<open>\<open>$\<close> (no \<open>m\<close> flag: end of input)\<close>

definition isWordOpt :: "char option \<Rightarrow> bool" where
  "isWordOpt p = (case p of None \<Rightarrow> False | Some c \<Rightarrow> isWord c)"

definition isWordHd :: "string \<Rightarrow> bool" where
  "isWordHd s = (case s of [] \<Rightarrow> False | c # _ \<Rightarrow> isWord c)"

definition skip0 :: "nat list option \<Rightarrow> nat list option" where
  "skip0 r = map_option ((#) 0) r"

definition more1 :: "nat list option \<Rightarrow> nat list option" where
  "more1 r = (case r of Some (n # ns) \<Rightarrow> Some (Suc n # ns) | _ \<Rightarrow> None)"

text \<open>
  The backtracking matcher of the language: \<open>matchItems ic items prev s\<close> matches the items
  at the front of \<open>s\<close> (\<open>prev\<close> is the character before, for \<open>\b\<close> and \<open>^\<close>) and gives the
  number of characters each item took, in the order of preference of the language: a
  greedy quantifier takes one more character if the rest can still match, and gives it back
  otherwise.
\<close>

fun matchItems :: "bool \<Rightarrow> item list \<Rightarrow> char option \<Rightarrow> string \<Rightarrow> nat list option" where
  "matchItems ic [] prev s = Some []"
| "matchItems ic (One c # r) prev [] = None"
| "matchItems ic (One c # r) prev (x # xs) =
     (if cmatch ic c x then map_option ((#) 1) (matchItems ic r (Some x) xs) else None)"
| "matchItems ic (Star c # r) prev [] = skip0 (matchItems ic r prev [])"
| "matchItems ic (Star c # r) prev (x # xs) =
     (if cmatch ic c x then
        (case more1 (matchItems ic (Star c # r) (Some x) xs) of
           Some ns \<Rightarrow> Some ns
         | None \<Rightarrow> skip0 (matchItems ic r prev (x # xs)))
      else skip0 (matchItems ic r prev (x # xs)))"
| "matchItems ic (Plus c # r) prev [] = None"
| "matchItems ic (Plus c # r) prev (x # xs) =
     (if cmatch ic c x then more1 (matchItems ic (Star c # r) (Some x) xs) else None)"
| "matchItems ic (Opt c # r) prev [] = skip0 (matchItems ic r prev [])"
| "matchItems ic (Opt c # r) prev (x # xs) =
     (if cmatch ic c x then
        (case matchItems ic r (Some x) xs of
           Some ns \<Rightarrow> Some (1 # ns)
         | None \<Rightarrow> skip0 (matchItems ic r prev (x # xs)))
      else skip0 (matchItems ic r prev (x # xs)))"
| "matchItems ic (WordB # r) prev s =
     (if isWordOpt prev \<noteq> isWordHd s then skip0 (matchItems ic r prev s) else None)"
| "matchItems ic (Bol # r) prev s =
     (if prev = None then skip0 (matchItems ic r prev s) else None)"
| "matchItems ic (Eol # r) prev s =
     (if s = [] then skip0 (matchItems ic r prev s) else None)"

fun matchAlts :: "bool \<Rightarrow> item list list \<Rightarrow> char option \<Rightarrow> string \<Rightarrow> nat list option" where
  "matchAlts ic [] prev s = None"
| "matchAlts ic (a # as) prev s =
     (case matchItems ic a prev s of Some ns \<Rightarrow> Some ns | None \<Rightarrow> matchAlts ic as prev s)"

record regex =
  alts :: "item list list"
  ignoreCase :: bool
  source :: string        \<comment> \<open>the \<open>.source\<close> text\<close>

definition matchHere :: "regex \<Rightarrow> char option \<Rightarrow> string \<Rightarrow> nat list option" where
  "matchHere re prev s = matchAlts (ignoreCase re) (alts re) prev s"

text \<open>The leftmost match at or after the position \<open>i\<close> at which \<open>s\<close> starts.\<close>

fun searchFrom :: "regex \<Rightarrow> char option \<Rightarrow> string \<Rightarrow> nat \<Rightarrow> (nat \<times> nat list) option" where
  "searchFrom re prev [] i = map_option (Pair i) (matchHere re prev [])"
| "searchFrom re prev (x # xs) i =
     (case matchHere re prev (x # xs) of
        Some ns \<Rightarrow> Some (i, ns)
      | None \<Rightarrow> searchFrom re (Some x) xs (Suc i))"

definition execAt :: "regex \<Rightarrow> string \<Rightarrow> nat \<Rightarrow> (nat \<times> nat list) option" where
  "execAt re s k =
     (if length s < k then None
      else searchFrom re (if k = 0 then None else Some (s ! (k - 1))) (drop k s) k)"

text \<open>
  \<open>RegExp.prototype.test\<close> of a regular expression with the \<open>g\<close> flag reads and writes the
  \<open>lastIndex\<close> of the object: the search starts there, a match moves it to the end of the
  match, a failure resets it to 0. \<open>testG re s li\<close> gives the answer and the new
  \<open>lastIndex\<close>.
\<close>

definition testG :: "regex \<Rightarrow> string \<Rightarrow> nat \<Rightarrow> bool \<times> nat" where
  "testG re s li =
     (case execAt re s li of
        Some (i, ns) \<Rightarrow> (True, i + sum_list ns)
      | None \<Rightarrow> (False, 0))"

text \<open>\<open>test\<close> on an object that was just created (\<open>lastIndex\<close> 0) and is dropped afterwards.\<close>

definition testFresh :: "regex \<Rightarrow> string \<Rightarrow> bool" where
  "testFresh re s = fst (testG re s 0)"

text \<open>
  \<open>String.prototype.replace\<close> with a \<open>g\<close> pattern and a replacement without \<open>$\<close>: every
  match, from the left and without overlap, is replaced. \<open>k\<close> counts the characters of
  the current match that are still to be dropped. An empty match inserts the replacement
  and moves on by one character.
\<close>

fun replaceFrom :: "regex \<Rightarrow> string \<Rightarrow> char option \<Rightarrow> nat \<Rightarrow> string \<Rightarrow> string" where
  "replaceFrom re rep prev 0 [] = (case matchHere re prev [] of Some ns \<Rightarrow> rep | None \<Rightarrow> [])"
| "replaceFrom re rep prev (Suc k) [] = []"
| "replaceFrom re rep prev (Suc k) (x # xs) = replaceFrom re rep (Some x) k xs"
| "replaceFrom re rep prev 0 (x # xs) =
     (case matchHere re prev (x # xs) of
        None \<Rightarrow> x # replaceFrom re rep (Some x) 0 xs
      | Some ns \<Rightarrow>
          (if sum_list ns = 0 then rep @ x # replaceFrom re rep (Some x) 0 xs
           else rep @ replaceFrom re rep (Some x) (sum_list ns - 1) xs))"

definition replaceAll :: "regex \<Rightarrow> string \<Rightarrow> string \<Rightarrow> string" where
  "replaceAll re rep s = replaceFrom re rep None 0 s"

text \<open>Building patterns: a literal text, one item per character.\<close>

definition lit :: "string \<Rightarrow> item list" where
  "lit s = map (\<lambda>c. One (Chr c)) s"


definition bs :: char where
  "bs = CHR 0x5C"   \<comment> \<open>the backslash, for the \<open>.source\<close> texts\<close>

definition nl :: char where
  "nl = CHR 0x0A"

definition cr :: char where
  "cr = CHR 0x0D"

definition nul :: char where
  "nul = CHR 0x00"

definition quotes :: "char list" where
  "quotes = [CHR 0x27, CHR 0x22]"   \<comment> \<open>the class \<open>['"]\<close>\<close>

text \<open>\<open>trim\<close>, \<open>trimEnd\<close>, \<open>split('\n')\<close>, \<open>join\<close> and \<open>includes\<close>.\<close>

definition trimEnd :: "string \<Rightarrow> string" where
  "trimEnd s = rev (dropWhile isSpace (rev s))"

definition trim :: "string \<Rightarrow> string" where
  "trim s = trimEnd (dropWhile isSpace s)"

fun splitLines :: "string \<Rightarrow> string list" where
  "splitLines [] = [[]]"
| "splitLines (x # xs) =
     (if x = nl then [] # splitLines xs
      else (case splitLines xs of l # ls \<Rightarrow> (x # l) # ls | [] \<Rightarrow> [[x]]))"

fun joinWith :: "string \<Rightarrow> string list \<Rightarrow> string" where
  "joinWith sep [] = []"
| "joinWith sep [x] = x"
| "joinWith sep (x # y # ys) = x @ sep @ joinWith sep (y # ys)"

fun includesStr :: "string \<Rightarrow> string \<Rightarrow> bool" where
  "includesStr [] p = (p = [])"
| "includesStr (x # xs) p = (prefix p (x # xs) \<or> includesStr xs p)"

section \<open>utils/constants.js\<close>

definition SUPPORTED_LANGUAGES :: "string list" where
  "SUPPORTED_LANGUAGES = [''python'', ''javascript'', ''cpp'', ''java'']"

datatype EXECUTION_STATUS =
    SUCCESS | ERROR | TIMEOUT | MEMORY_LIMIT_EXCEEDED | COMPILATION_ERROR | RUNTIME_ERROR

definition MAX_CODE_LENGTH :: int where
  "MAX_CODE_LENGTH = 50000"

definition MAX_INPUT_LENGTH :: int where
  "MAX_INPUT_LENGTH = 10000"


text \<open>
  \<open>LANGUAGE_EXTENSIONS[language]\<close> for the names that are keys of the table. (A name that
  every JavaScript object inherits, such as \<open>constructor\<close>, is not looked at; the execution
  service lets only the four supported languages through.)
\<close>

definition LANGUAGE_EXTENSIONS :: "string \<Rightarrow> string option" where
  "LANGUAGE_EXTENSIONS l =
     (if l = ''python'' then Some ''.py''
      else if l = ''javascript'' then Some ''.js''
      else if l = ''cpp'' then Some ''.cpp''
      else if l = ''java'' then Some ''.java''
      else None)"

text \<open>Pattern pieces that occur several times in the tables.\<close>

definition importOf :: "string \<Rightarrow> item list" where
  "importOf m = lit ''import'' @ [Plus Space] @ lit m"   \<comment> \<open>\<open>import\s+m\<close>\<close>

definition requireOf :: "string \<Rightarrow> item list" where
  \<comment> \<open>\<open>require\s*\(\s*['"]m['"]\s*\)\<close>\<close>
  "requireOf m = lit ''require'' @ [Star Space] @ lit ''('' @ [Star Space, One (OneOf quotes)]
                 @ lit m @ [One (OneOf quotes), Star Space] @ lit '')''"

definition includeOf :: "string \<Rightarrow> item list" where
  \<comment> \<open>\<open>#include\s*<\s*h\s*>\<close>, the dot of \<open>h\<close> escaped\<close>
  "includeOf h = lit ''#include'' @ [Star Space] @ lit ''<'' @ [Star Space] @ lit h
                 @ [Star Space] @ lit ''>''"

definition callOf :: "string \<Rightarrow> item list" where
  "callOf f = lit f @ [Star Space] @ lit ''(''"   \<comment> \<open>\<open>f\s*\(\<close>\<close>

definition gi :: "item list list \<Rightarrow> string \<Rightarrow> regex" where
  "gi as src = \<lparr>alts = as, ignoreCase = True, source = src\<rparr>"

definition g :: "item list list \<Rightarrow> string \<Rightarrow> regex" where
  "g as src = \<lparr>alts = as, ignoreCase = False, source = src\<rparr>"

text \<open>A pattern without the \<open>g\<close> flag, with or without \<open>i\<close>; its \<open>lastIndex\<close> is never used.\<close>

definition noG :: "bool \<Rightarrow> item list list \<Rightarrow> regex" where
  "noG ic as = \<lparr>alts = as, ignoreCase = ic, source = []\<rparr>"

text \<open>
  \<open>SECURITY_CONFIG.FORBIDDEN_PATTERNS\<close>: seventeen regular-expression objects, all with the
  flags \<open>gi\<close>, created once when the module is loaded and shared by every call.
\<close>

definition FORBIDDEN_PATTERNS :: "regex list" where
  "FORBIDDEN_PATTERNS =
    [gi [importOf ''os''] (''import'' @ bs # ''s+os''),
     gi [importOf ''sys''] (''import'' @ bs # ''s+sys''),
     gi [importOf ''subprocess''] (''import'' @ bs # ''s+subprocess''),
     gi [importOf ''socket''] (''import'' @ bs # ''s+socket''),
     gi [requireOf ''fs'']
        (''require'' @ bs # ''s*'' @ bs # ''('' @ bs # ''s*['' @ quotes @ '']fs['' @ quotes
          @ '']'' @ bs # ''s*'' @ bs # '')''),
     gi [requireOf ''child_process'']
        (''require'' @ bs # ''s*'' @ bs # ''('' @ bs # ''s*['' @ quotes @ '']child_process[''
          @ quotes @ '']'' @ bs # ''s*'' @ bs # '')''),
     gi [requireOf ''net'']
        (''require'' @ bs # ''s*'' @ bs # ''('' @ bs # ''s*['' @ quotes @ '']net['' @ quotes
          @ '']'' @ bs # ''s*'' @ bs # '')''),
     gi [includeOf ''stdlib.h'']
        (''#include'' @ bs # ''s*<'' @ bs # ''s*stdlib'' @ bs # ''.h'' @ bs # ''s*>''),
     gi [includeOf ''unistd.h'']
        (''#include'' @ bs # ''s*<'' @ bs # ''s*unistd'' @ bs # ''.h'' @ bs # ''s*>''),
     gi [callOf ''system''] (''system'' @ bs # ''s*'' @ bs # ''(''),
     gi [callOf ''exec''] (''exec'' @ bs # ''s*'' @ bs # ''(''),
     gi [callOf ''eval''] (''eval'' @ bs # ''s*'' @ bs # ''(''),
     gi [lit ''Runtime.getRuntime().exec'']
        (''Runtime'' @ bs # ''.getRuntime'' @ bs # ''('' @ bs # '')'' @ bs # ''.exec''),
     gi [lit ''ProcessBuilder''] ''ProcessBuilder'',
     gi [lit ''../''] (bs # ''.'' @ bs # ''.'' @ bs # ''/''),
     gi [lit ''/etc/passwd''] (bs # ''/etc'' @ bs # ''/passwd''),
     gi [lit ''/proc/''] (bs # ''/proc'' @ bs # ''/'')]"


section \<open>services/securityService.js\<close>

record validation =
  isValid :: bool
  errors :: "string list"

text \<open>
  The loop of \<open>validateCode\<close> over \<open>FORBIDDEN_PATTERNS\<close>. The objects are shared and have the
  \<open>g\<close> flag, so each \<open>pattern.test(code)\<close> starts at the \<open>lastIndex\<close> the previous call
  left in the object and leaves a new one: the list of these indices, one per pattern, is
  the state of the module. An index that is not recorded is 0.
\<close>

fun testPatterns :: "regex list \<Rightarrow> nat list \<Rightarrow> string \<Rightarrow> string list \<times> nat list" where
  "testPatterns [] lis src = ([], [])"
| "testPatterns (p # ps) lis src =
     (let (found, li') = testG p src (case lis of [] \<Rightarrow> 0 | li # _ \<Rightarrow> li);
          (es, lis') = testPatterns ps (tl lis) src
      in ((if found then [''Code contains forbidden pattern: '' @ source p] else []) @ es,
          li' # lis'))"

text \<open>
  The language-specific checks build their regular expressions with \<open>new RegExp\<close> inside
  the call, so every \<open>test\<close> is on a fresh object. A name is put into the pattern text as
  it is: a dot in it is the wildcard.
\<close>

definition rawText :: "string \<Rightarrow> item list" where
  "rawText s = map (\<lambda>c. if c = CHR ''.'' then One Dot else One (Chr c)) s"

definition fresh :: "item list list \<Rightarrow> regex" where
  "fresh as = \<lparr>alts = as, ignoreCase = True, source = []\<rparr>"

definition checkEach :: "string list \<Rightarrow> (string \<Rightarrow> regex) \<Rightarrow> string \<Rightarrow> string \<Rightarrow> string list" where
  "checkEach names mk msg src = map (\<lambda>n. msg @ n) (filter (\<lambda>n. testFresh (mk n) src) names)"

definition validatePythonCode :: "string \<Rightarrow> string list" where
  "validatePythonCode src =
     checkEach [''os'', ''sys'', ''subprocess'', ''socket'', ''urllib'', ''requests'',
                ''shutil'', ''glob'', ''tempfile'', ''pickle'', ''marshal'']
       (\<lambda>imp. fresh [lit ''import'' @ [Plus Space] @ rawText imp,
                      lit ''from'' @ [Plus Space] @ rawText imp @ [Plus Space] @ lit ''import''])
       ''Dangerous import detected: '' src
     @ checkEach [''exec'', ''eval'', ''__import__'', ''compile'', ''open'', ''file'']
       (\<lambda>func. fresh [WordB # rawText func @ [Star Space] @ lit ''(''])
       ''Dangerous function detected: '' src"

definition validateJavaScriptCode :: "string \<Rightarrow> string list" where
  "validateJavaScriptCode src =
     checkEach [''fs'', ''child_process'', ''net'', ''http'', ''https'', ''crypto'',
                ''os'', ''path'', ''stream'', ''util'', ''vm'']
       (\<lambda>m. fresh [lit ''require'' @ [Star Space] @ lit ''('' @ [Star Space, One (OneOf quotes)]
                    @ rawText m @ [One (OneOf quotes), Star Space] @ lit '')''])
       ''Dangerous module detected: '' src
     @ checkEach [''process'', ''global'', ''__dirname'', ''__filename'']
       (\<lambda>gl. fresh [WordB # rawText gl @ [WordB]])
       ''Dangerous global object detected: '' src"

definition validateCppCode :: "string \<Rightarrow> string list" where
  "validateCppCode src =
     checkEach [''cstdlib'', ''stdlib.h'', ''unistd.h'', ''sys/'', ''windows.h'',
                ''process.h'', ''signal.h'', ''fcntl.h'']
       (\<lambda>inc. fresh [lit ''#include'' @ [Star Space] @ lit ''<'' @ rawText inc])
       ''Dangerous include detected: '' src
     @ checkEach [''system'', ''exec'', ''fork'', ''kill'', ''exit'']
       (\<lambda>func. fresh [WordB # rawText func @ [Star Space] @ lit ''(''])
       ''Dangerous function detected: '' src"

text \<open>
  The Java checks escape the dots of a name (\<open>replace(/\./g, '\\.')\<close>) and nothing else:
  the \<open>()\<close> of \<open>Runtime.getRuntime().exec\<close> stays an empty group, which matches the empty
  text, so that pattern matches \<open>Runtime.getRuntime.exec\<close>.
\<close>

definition dropEmptyGroups :: "string \<Rightarrow> string" where
  "dropEmptyGroups s = filter (\<lambda>c. c \<noteq> CHR ''('' \<and> c \<noteq> CHR '')'') s"

definition validateJavaCode :: "string \<Rightarrow> string list" where
  "validateJavaCode src =
     checkEach [''java.io.File'', ''java.net'', ''java.lang.Runtime'',
                ''java.lang.ProcessBuilder'', ''java.nio.file'', ''java.security'',
                ''javax.script'']
       (\<lambda>imp. fresh [lit ''import'' @ [Plus Space] @ lit imp])
       ''Dangerous import detected: '' src
     @ checkEach [''Runtime.getRuntime().exec'', ''ProcessBuilder'', ''System.exit'',
                  ''File.'', ''Files.'']
       (\<lambda>m. fresh [lit (dropEmptyGroups m)])
       ''Dangerous method detected: '' src"

text \<open>
  \<open>validateCode\<close>, with the state of the shared patterns passed in and out. An empty or
  blank source returns before any pattern is tested. (The warnings written to the log are
  not part of the model.)
\<close>

definition validateCode :: "nat list \<Rightarrow> string \<Rightarrow> string \<Rightarrow> validation \<times> nat list" where
  "validateCode lis src language =
     (if src = [] \<or> length (trim src) = 0
      then (\<lparr>isValid = False, errors = [''Code cannot be empty'']\<rparr>, lis)
      else
        (let e1 = (if MAX_CODE_LENGTH < int (length src)
                   then [''Code exceeds maximum length of 50000 characters''] else []);
             (e2, lis') = testPatterns FORBIDDEN_PATTERNS lis src;
             e3 = (if language = ''python'' then validatePythonCode src
                   else if language = ''javascript'' then validateJavaScriptCode src
                   else if language = ''cpp'' then validateCppCode src
                   else if language = ''java'' then validateJavaCode src
                   else []);
             es = e1 @ e2 @ e3
         in (\<lparr>isValid = (es = []), errors = es\<rparr>, lis')))"

text \<open>The patterns of \<open>validateInput\<close> are literals of the function body: fresh at each call.\<close>

definition maliciousPatterns :: "regex list" where
  "maliciousPatterns =
     [g [[One (Chr nul)]] [],
      g [lit ''../''] [],
      g [[One (OneOf ''<>'')]] [],
      gi [lit ''javascript:''] [],
      gi [lit ''data:''] []]"

definition validateInput :: "string \<Rightarrow> validation" where
  "validateInput input =
     (let e1 = (if input \<noteq> [] \<and> MAX_INPUT_LENGTH < int (length input)
                then [''Input exceeds maximum length of 10000 characters''] else []);
          e2 = (if list_ex (\<lambda>p. testFresh p input) maliciousPatterns
                then [''Input contains potentially malicious content''] else []);
          es = e1 @ e2
      in \<lparr>isValid = (es = []), errors = es\<rparr>)"

definition removeNul :: "string \<Rightarrow> string" where
  "removeNul s = replaceAll (g [[One (Chr nul)]] []) [] s"

definition normalizeLineEndings :: "string \<Rightarrow> string" where
  "normalizeLineEndings s =
     replaceAll (g [[One (Chr cr)]] []) [nl] (replaceAll (g [[One (Chr cr), One (Chr nl)]] []) [nl] s)"

definition collapseBlankLines :: "string \<Rightarrow> string" where
  \<comment> \<open>\<open>/\n{3,}/g\<close>, that is \<open>\n\n\n+\<close>\<close>
  "collapseBlankLines s =
     replaceAll (g [[One (Chr nl), One (Chr nl), Plus (Chr nl)]] []) [nl, nl] s"

definition sanitizeCode :: "string \<Rightarrow> string" where
  "sanitizeCode src =
     (if src = [] then []
      else trim (joinWith [nl] (map trimEnd (splitLines
             (collapseBlankLines (normalizeLineEndings (removeNul src)))))))"

definition sanitizeInput :: "string \<Rightarrow> string" where
  "sanitizeInput input =
     (if input = [] then []
      else trim (collapseBlankLines (normalizeLineEndings (removeNul input))))"

definition calculateRiskLevel :: "string list \<Rightarrow> string" where
  "calculateRiskLevel es =
     (if es = [] then ''low'' else if int (length es) \<le> 2 then ''medium'' else ''high'')"

text \<open>
  \<open>generateSecurityReport\<close> runs \<open>validateCode\<close> again. The time stamp, the address and
  the hash of the report are left out.
\<close>

record securityReport =
  codeLength :: int
  isSecure :: bool
  violations :: "string list"
  riskLevel :: string

definition generateSecurityReport :: "nat list \<Rightarrow> string \<Rightarrow> string \<Rightarrow> securityReport \<times> nat list" where
  "generateSecurityReport lis src language =
     (let (v, lis') = validateCode lis src language
      in (\<lparr>codeLength = int (length src), isSecure = isValid v, violations = errors v,
           riskLevel = calculateRiskLevel (errors v)\<rparr>, lis'))"


section \<open>utils/helpers.js\<close>

definition validateLanguage :: "string \<Rightarrow> bool" where
  "validateLanguage language = (language \<in> set SUPPORTED_LANGUAGES)"

definition getFileExtension :: "string \<Rightarrow> string" where
  "getFileExtension language = (case LANGUAGE_EXTENSIONS language of Some e \<Rightarrow> e | None \<Rightarrow> ''.txt'')"

definition generateFileName :: "string \<Rightarrow> string \<Rightarrow> string" where
  "generateFileName language executionId =
     (let extension = getFileExtension language
      in if language = ''java'' then ''Main.java'' else ''main'' @ extension)"

text \<open>\<open>path.join(a, b)\<close> for two plain path names.\<close>

definition pathJoin :: "string \<Rightarrow> string \<Rightarrow> string" where
  "pathJoin a b = a @ ''/'' @ b"

definition tempDirOf :: "string \<Rightarrow> string \<Rightarrow> string" where
  \<comment> \<open>the directory of \<open>createTempDirectory\<close>, under \<open>os.tmpdir()\<close>\<close>
  "tempDirOf tmpdir executionId = pathJoin tmpdir (''code_exec_'' @ executionId)"

definition truncationMarker :: string where
  "truncationMarker = nl # ''... (output truncated)''"

text \<open>
  \<open>sanitizeOutput\<close> declares its own limit, \<open>const MAX_OUTPUT_LENGTH = 10000\<close>, in the body
  of the function; helpers.js does not import the constant of constants.js.
\<close>

definition sanitizeOutput_MAX_OUTPUT_LENGTH :: nat where
  "sanitizeOutput_MAX_OUTPUT_LENGTH = 10000"

definition pathOf :: "string \<Rightarrow> regex" where
  \<comment> \<open>\<open>/\/dir\/[^\s]+/g\<close>\<close>
  "pathOf dir = g [lit (''/'' @ dir @ ''/'') @ [Plus NonSpace]] []"

definition redactPaths :: "string \<Rightarrow> string" where
  "redactPaths output =
     replaceAll (pathOf ''var'') ''[system_file]''
       (replaceAll (pathOf ''home'') ''[user_file]''
         (replaceAll (pathOf ''tmp'') ''[temp_file]'' output))"

definition sanitizeOutput :: "string \<Rightarrow> string" where
  "sanitizeOutput output =
     (if output = [] then []
      else
        (let output = redactPaths output
         in if int sanitizeOutput_MAX_OUTPUT_LENGTH < int (length output)
            then take sanitizeOutput_MAX_OUTPUT_LENGTH output @ truncationMarker
            else output))"

section \<open>executors/java.js\<close>

text \<open>
  \<open>JavaExecutor.extractClassName\<close>: \<open>code.match\<close> with a pattern without \<open>g\<close> gives the
  leftmost match and its group 1, here the text of the last item, \<open>(\w+)\<close>.
\<close>

definition group1Last :: "string \<Rightarrow> (nat \<times> nat list) \<Rightarrow> string" where
  "group1Last s m = (case m of (i, ns) \<Rightarrow> take (last ns) (drop (i + sum_list (butlast ns)) s))"

definition publicClassRe :: regex where
  \<comment> \<open>\<open>/public\s+class\s+(\w+)/\<close>\<close>
  "publicClassRe = noG False [lit ''public'' @ [Plus Space] @ lit ''class'' @ [Plus Space, Plus WordC]]"

definition classRe :: regex where
  \<comment> \<open>\<open>/class\s+(\w+)/\<close>\<close>
  "classRe = noG False [lit ''class'' @ [Plus Space, Plus WordC]]"

definition extractClassName :: "string \<Rightarrow> string" where
  "extractClassName src =
     (case execAt publicClassRe src 0 of
        Some m \<Rightarrow> group1Last src m
      | None \<Rightarrow>
          (case execAt classRe src 0 of
             Some m \<Rightarrow> group1Last src m
           | None \<Rightarrow> ''Main''))"


section \<open>services/dockerService.js\<close>

subsection \<open>Configuration and container options\<close>

text \<open>
  An entry of \<open>containerConfigs\<close>. \<open>cpuLimit\<close> is a floating-point number whose only use
  in the options is \<open>Math.floor(config.cpuLimit * 100000)\<close>; the entry carries that
  integer, \<open>cpuQuota\<close> (50000 for the default 0.5).
\<close>

record containerConfig =
  image' :: string
  cmd :: "string list"
  workingDir :: string
  memoryLimit :: string
  cpuQuota :: int
  timeout :: int

text \<open>
  The settings read from the environment when the service is created.
  \<^item> \<open>MAX_MEMORY\<close>: absent or a text; the empty text is falsy and gives the default.
  \<^item> \<open>MAX_CPU_quota\<close>: \<open>None\<close> when \<open>parseFloat(MAX_CPU)\<close> is falsy (absent, not a number
    or 0), so that 0.5 is taken; else the quota \<open>Math.floor\<close> makes of the number, which
    is 0 for a number below 0.00001.
  \<^item> \<open>DOCKER_TIMEOUT\<close>: \<open>None\<close> when \<open>parseInt\<close> gives no number; the number 0 is falsy
    and gives the default as well.
\<close>

record settings =
  MAX_MEMORY :: "string option"
  MAX_CPU_quota :: "int option"
  DOCKER_TIMEOUT :: "int option"

definition orDefaultS :: "string option \<Rightarrow> string \<Rightarrow> string" where
  "orDefaultS v d = (case v of None \<Rightarrow> d | Some x \<Rightarrow> if x = [] then d else x)"

definition orDefaultI :: "int option \<Rightarrow> int \<Rightarrow> int" where
  "orDefaultI v d = (case v of None \<Rightarrow> d | Some x \<Rightarrow> if x = 0 then d else x)"

definition mkConfig :: "settings \<Rightarrow> string \<Rightarrow> string list \<Rightarrow> int \<Rightarrow> containerConfig" where
  "mkConfig env img c t =
     \<lparr>image' = img, cmd = c, workingDir = ''/app'',
      memoryLimit = orDefaultS (MAX_MEMORY env) ''128m'',
      cpuQuota = (case MAX_CPU_quota env of None \<Rightarrow> 50000 | Some q \<Rightarrow> q),
      timeout = orDefaultI (DOCKER_TIMEOUT env) t\<rparr>"

text \<open>
  \<open>containerConfigs[language]\<close> for the names an execution can come with: the execution
  service lets only the four supported languages through. (A name that every JavaScript
  object inherits, such as \<open>constructor\<close>, is not looked at: there the table of the program
  gives a value that is no configuration.)
\<close>

definition containerConfigs :: "settings \<Rightarrow> string \<Rightarrow> containerConfig option" where
  "containerConfigs env language =
     (if language = ''python''
        then Some (mkConfig env ''python:3.9-alpine'' [''python'', ''/app/main.py''] 30000)
      else if language = ''javascript''
        then Some (mkConfig env ''node:16-alpine'' [''node'', ''/app/main.js''] 30000)
      else if language = ''cpp''
        then Some (mkConfig env ''gcc:9-alpine''
                     [''/bin/sh'', ''-c'', ''cd /app && g++ -o main main.cpp && ./main''] 45000)
      else if language = ''java''
        then Some (mkConfig env ''openjdk:11-alpine''
                     [''/bin/sh'', ''-c'', ''cd /app && javac Main.java && java Main''] 45000)
      else None)"

text \<open>
  \<open>parseMemoryLimit\<close> on a text: \<open>/^(\d+)([kmg]?)b?$/i\<close>, then \<open>parseInt\<close> of group 1 and
  the unit of group 2. (The arithmetic is exact; the program's numbers are doubles, and
  the two agree as long as the digits and the product stay below \<open>2^53\<close>.)
\<close>

definition memoryRe :: regex where
  "memoryRe = noG True [[Bol, Plus Digit, Opt (OneOf ''kmg''), Opt (Chr (CHR ''b'')), Eol]]"

definition parseInt :: "string \<Rightarrow> int" where
  "parseInt ds = foldl (\<lambda>a c. 10 * a + (int (of_char c) - 48)) 0 ds"

definition parseMemoryLimit :: "string \<Rightarrow> int" where
  "parseMemoryLimit m =
     (case execAt memoryRe m 0 of
        Some (i, [b, n1, n2, n3, e]) \<Rightarrow>
          (let v = parseInt (take n1 (drop i m));
               unit = toLowerCase (take n2 (drop (i + n1) m))
           in if unit = ''k'' then v * 1024
              else if unit = ''m'' then v * 1024 * 1024
              else if unit = ''g'' then v * 1024 * 1024 * 1024
              else v)
      | _ \<Rightarrow> 128 * 1024 * 1024)"

record ulimit =
  Name :: string
  Soft :: int
  Hard :: int

record hostConfig =
  Memory :: int
  CpuQuota :: int
  CpuPeriod :: int
  PidsLimit :: int
  Ulimits :: "ulimit list"
  Binds :: "string list"
  ReadonlyRootfs :: bool
  SecurityOpt :: "string list"
  CapDrop :: "string list"
  AutoRemove :: bool

record containerOptions =
  Image' :: string
  Cmd :: "string list"
  WorkingDir :: string
  AttachStdout :: bool
  AttachStderr :: bool
  AttachStdin :: bool
  OpenStdin :: bool
  StdinOnce :: bool
  Tty :: bool
  NetworkMode :: string
  HostConfig :: hostConfig

definition buildContainerOptions :: "containerConfig \<Rightarrow> string \<Rightarrow> string \<Rightarrow> containerOptions" where
  "buildContainerOptions config tempDir input =
     (let binds = [tempDir @ '':/app:rw'']
      in \<lparr>Image' = image' config,
          Cmd = cmd config,
          WorkingDir = workingDir config,
          AttachStdout = True,
          AttachStderr = True,
          AttachStdin = (input \<noteq> []),
          OpenStdin = (input \<noteq> []),
          StdinOnce = (input \<noteq> []),
          Tty = False,
          NetworkMode = ''none'',
          HostConfig =
            \<lparr>Memory = parseMemoryLimit (memoryLimit config),
             CpuQuota = cpuQuota config,
             CpuPeriod = 100000,
             PidsLimit = 50,
             Ulimits = [\<lparr>Name = ''nofile'', Soft = 64, Hard = 64\<rparr>,
                        \<lparr>Name = ''nproc'', Soft = 32, Hard = 32\<rparr>],
             Binds = binds,
             ReadonlyRootfs = False,
             SecurityOpt = [''no-new-privileges''],
             CapDrop = [''ALL''],
             AutoRemove = False\<rparr>\<rparr>)"

definition getErrorStatus :: "string \<Rightarrow> EXECUTION_STATUS" where
  "getErrorStatus message =
     (let message = toLowerCase message
      in if includesStr message ''timeout'' then TIMEOUT
         else if includesStr message ''memory'' then MEMORY_LIMIT_EXCEEDED
         else if includesStr message ''compilation'' \<or> includesStr message ''compile''
           then COMPILATION_ERROR
         else ERROR)"

definition formatError :: "string \<Rightarrow> string" where
  "formatError message =
     (if includesStr message ''timeout''
        then ''Code execution timed out. Please optimize your code or reduce complexity.''
      else if includesStr message ''memory''
        then ''Memory limit exceeded. Please optimize your code to use less memory.''
      else ''Execution error: '' @ message)"


subsection \<open>Effects and the container's behaviour\<close>

text \<open>
  The calls the services make on the file system, the container runtime and the database,
  in the order they are made. \<open>CleanupContainer\<close> stands for \<open>cleanupContainer\<close> (inspect,
  stop if running, remove) and \<open>Rmdir\<close> for \<open>cleanupTempDirectory\<close>: both catch their
  own errors and return nothing.
\<close>

datatype effect =
    Mkdir string                       \<comment> \<open>\<open>fs.mkdir\<close> of the workspace\<close>
  | WriteFile string string            \<comment> \<open>\<open>fs.writeFile(path, content)\<close>\<close>
  | CreateContainer containerOptions   \<comment> \<open>\<open>docker.createContainer(options)\<close>\<close>
  | StartContainer                     \<comment> \<open>\<open>container.start()\<close>\<close>
  | AttachContainer                    \<comment> \<open>\<open>container.attach(...)\<close>\<close>
  | WaitContainer                      \<comment> \<open>\<open>container.wait()\<close>\<close>
  | KillContainer                      \<comment> \<open>\<open>container.kill()\<close>\<close>
  | StatsContainer                     \<comment> \<open>\<open>container.stats({stream: false})\<close>\<close>
  | CleanupContainer
  | Rmdir string
  | SaveRecord                         \<comment> \<open>\<open>executionRecord.save()\<close>\<close>

text \<open>
  What happens while \<open>waitForContainerCompletion\<close> is pending, in the order in which the
  event loop runs the continuations: the answer to \<open>attach\<close>, chunks of the two channels,
  the answer to \<open>wait\<close>, the timer, the answer to the \<open>kill\<close> of the timer's callback.
\<close>

datatype event =
    AttachOk
  | AttachThrows string
  | Stdout string
  | Stderr string
  | WaitReturns int          \<comment> \<open>\<open>result.StatusCode\<close>\<close>
  | WaitThrows string
  | TimerFires
  | KillReturns
  | KillThrows string

datatype settled =
    Resolved string string int     \<comment> \<open>\<open>resolve({output, error, exitCode})\<close>\<close>
  | Rejected string                \<comment> \<open>\<open>reject(err)\<close>, the message of \<open>err\<close>\<close>

datatype body = AwaitAttach | AwaitWait
datatype timer = Armed | Killing | Off

text \<open>
  \<open>waitForContainerCompletion\<close>. The executor arms the timer and calls \<open>attach\<close>; after
  that it runs in pieces, one per event:
  \<^item> \<open>attach\<close> answers: \<open>demuxStream\<close> is set up and \<open>wait\<close> is called; if it throws, the
    timer is cleared and the promise rejected;
  \<^item> a chunk arrives: \<open>demuxStream\<close> hands it to the \<open>write\<close> method of its target, and
    the targets given are two arrow functions, which have none; the functions that would
    append to \<open>output\<close> and \<open>error\<close> are never called and the two variables stay empty;
  \<^item> \<open>wait\<close> answers: the timer is cleared and the promise resolved with the two
    variables and the status code; if it throws, the promise is rejected;
  \<^item> the timer fires (only while armed): its callback calls \<open>kill\<close> and awaits it;
  \<^item> \<open>kill\<close> answers or throws: the callback rejects with \<open>Execution timeout\<close>.
  The first \<open>resolve\<close> or \<open>reject\<close> settles the promise, and the caller goes on from there;
  the function gives it with the calls made until then. An event that has no continuation
  waiting for it is skipped. When the events end before the promise is settled the
  result is \<open>None\<close>: the caller waits for ever.
\<close>

fun awaitCompletion ::
  "body \<Rightarrow> timer \<Rightarrow> string \<Rightarrow> string \<Rightarrow> event list \<Rightarrow> (settled \<times> effect list) option" where
  "awaitCompletion b t out err [] = None"
| "awaitCompletion b t out err (e # es) =
     (case e of
        AttachOk \<Rightarrow>
          (if b = AwaitAttach
           then map_option (map_prod id ((#) WaitContainer)) (awaitCompletion AwaitWait t out err es)
           else awaitCompletion b t out err es)
      | AttachThrows m \<Rightarrow>
          (if b = AwaitAttach then Some (Rejected m, []) else awaitCompletion b t out err es)
      | Stdout c \<Rightarrow> awaitCompletion b t out err es
      | Stderr c \<Rightarrow> awaitCompletion b t out err es
      | WaitReturns n \<Rightarrow>
          (if b = AwaitWait then Some (Resolved out err n, []) else awaitCompletion b t out err es)
      | WaitThrows m \<Rightarrow>
          (if b = AwaitWait then Some (Rejected m, []) else awaitCompletion b t out err es)
      | TimerFires \<Rightarrow>
          (if t = Armed
           then map_option (map_prod id ((#) KillContainer)) (awaitCompletion b Killing out err es)
           else awaitCompletion b t out err es)
      | KillReturns \<Rightarrow>
          (if t = Killing then Some (Rejected ''Execution timeout'', [])
           else awaitCompletion b t out err es)
      | KillThrows m \<Rightarrow>
          (if t = Killing then Some (Rejected ''Execution timeout'', [])
           else awaitCompletion b t out err es))"

definition waitForContainerCompletion :: "event list \<Rightarrow> (settled \<times> effect list) option" where
  "waitForContainerCompletion es =
     map_option (map_prod id ((#) AttachContainer)) (awaitCompletion AwaitAttach Armed [] [] es)"

text \<open>
  \<open>getContainerStats\<close>: the answer of the runtime is \<open>memory_stats.usage\<close> and
  \<open>memory_stats.limit\<close>, each a number or undefined, or an exception, which gives zeros.
  (The percentages, floating-point quotients, are left out.)
\<close>

record memory_stats =
  usage :: "int option"
  limit :: "int option"

datatype memoryUsage =
    ContainerMemory int int     \<comment> \<open>\<open>{used, limit}\<close> of the container's statistics\<close>
  | HostMemory                  \<comment> \<open>\<open>Helpers.getMemoryUsage()\<close>: the heap of the server process\<close>

definition orZero :: "int option \<Rightarrow> int" where
  "orZero v = (case v of None \<Rightarrow> 0 | Some x \<Rightarrow> x)"

definition getContainerStats :: "memory_stats option \<Rightarrow> memoryUsage" where
  "getContainerStats reply =
     (case reply of
        Some stats \<Rightarrow> ContainerMemory (orZero (usage stats)) (orZero (limit stats))
      | None \<Rightarrow> ContainerMemory 0 0)"

text \<open>What the file system and the runtime answer during one execution.\<close>

record world =
  tmpdir :: string                          \<comment> \<open>\<open>os.tmpdir()\<close>\<close>
  mkdirThrows :: "string option"            \<comment> \<open>the message, if \<open>fs.mkdir\<close> throws\<close>
  writeCodeThrows :: "string option"
  writeInputThrows :: "string option"
  createThrows :: "string option"
  containerId :: string
  startThrows :: "string option"
  events :: "event list"
  statsReply :: "memory_stats option"       \<comment> \<open>\<open>None\<close>: \<open>container.stats\<close> throws\<close>

record containerInfo =
  containerId' :: string
  imageName :: string
  memoryLimit' :: string

text \<open>
  The fields the result of the container service and the response of the execution service
  have in common, then each of the two. (\<open>executionTime\<close> and \<open>timestamp\<close>, readings of
  the clock, are left out.)
\<close>

record outcome =
  status :: EXECUTION_STATUS
  output' :: string
  error :: string
  exitCode :: int
  memoryUsage :: memoryUsage

record dockerResult = outcome +
  containerInfo :: "containerInfo option"

text \<open>
  The \<open>catch\<close> block of \<open>executeCode\<close>: the container, if one was created, and the
  directory, if one was created, are cleaned up, and the error becomes the result.
\<close>

definition failed :: "string \<Rightarrow> bool \<Rightarrow> string option \<Rightarrow> effect list \<Rightarrow> dockerResult \<times> effect list" where
  "failed message container tempDir done =
     (\<lparr>status = getErrorStatus message, output' = [], error = formatError message,
       exitCode = - 1, memoryUsage = HostMemory, containerInfo = None\<rparr>,
      done @ (if container then [CleanupContainer] else [])
           @ (case tempDir of Some d \<Rightarrow> [Rmdir d] | None \<Rightarrow> []))"

text \<open>
  \<open>DockerService.executeCode\<close>. \<open>None\<close>: the promise of \<open>waitForContainerCompletion\<close> is
  never settled. (Time stamps and log lines are left out, and so is the map
  \<open>activeContainers\<close>.)
\<close>

definition dockerExecuteCode ::
  "settings \<Rightarrow> world \<Rightarrow> string \<Rightarrow> string \<Rightarrow> string \<Rightarrow> string \<Rightarrow> (dockerResult \<times> effect list) option" where
  "dockerExecuteCode env w language src input executionId =
     (case containerConfigs env language of
        None \<Rightarrow> Some (failed (''Unsupported language: '' @ language) False None [])
      | Some config \<Rightarrow>
     (let tempDir = tempDirOf (tmpdir w) executionId; t1 = [Mkdir tempDir] in
      case mkdirThrows w of Some m \<Rightarrow> Some (failed m False None t1) | None \<Rightarrow>
     (let fileName = generateFileName language executionId;
          codePath = pathJoin tempDir fileName;
          inputPath = pathJoin tempDir ''input.txt'';
          t2 = t1 @ [WriteFile codePath src] in
      case writeCodeThrows w of Some m \<Rightarrow> Some (failed m False (Some tempDir) t2) | None \<Rightarrow>
     (let t3 = t2 @ (if input \<noteq> [] then [WriteFile inputPath input] else []) in
      case (if input \<noteq> [] then writeInputThrows w else None) of
        Some m \<Rightarrow> Some (failed m False (Some tempDir) t3) | None \<Rightarrow>
     (let containerOptions = buildContainerOptions config tempDir input;
          t4 = t3 @ [CreateContainer containerOptions] in
      case createThrows w of Some m \<Rightarrow> Some (failed m False (Some tempDir) t4) | None \<Rightarrow>
     (let t5 = t4 @ [StartContainer] in
      case startThrows w of Some m \<Rightarrow> Some (failed m True (Some tempDir) t5) | None \<Rightarrow>
     (case waitForContainerCompletion (events w) of
        None \<Rightarrow> None
      | Some (Rejected m, tw) \<Rightarrow> Some (failed m True (Some tempDir) (t5 @ tw))
      | Some (Resolved out err code, tw) \<Rightarrow>
          (let stats = getContainerStats (statsReply w)
           in Some (\<lparr>status = (if code = 0 then SUCCESS else RUNTIME_ERROR),
                      output' = sanitizeOutput out,
                      error = sanitizeOutput err,
                      exitCode = code,
                      memoryUsage = stats,
                      containerInfo = Some \<lparr>containerId' = containerId w,
                                             imageName = image' config,
                                             memoryLimit' = memoryLimit config\<rparr>\<rparr>,
                    t5 @ tw @ [StatsContainer, CleanupContainer, Rmdir tempDir])))))))))"


text \<open>
  The container is started: the language has a configuration and no call before
  \<open>waitForContainerCompletion\<close> throws.
\<close>

definition started :: "settings \<Rightarrow> world \<Rightarrow> string \<Rightarrow> string \<Rightarrow> bool" where
  "started env w language input =
     (containerConfigs env language \<noteq> None \<and> mkdirThrows w = None \<and> writeCodeThrows w = None
      \<and> (input \<noteq> [] \<longrightarrow> writeInputThrows w = None)
      \<and> createThrows w = None \<and> startThrows w = None)"

section \<open>services/codeExecutionService.js\<close>

record response = outcome +
  success :: bool
  executionId :: string
  language :: "string option"                  \<comment> \<open>absent in an error response\<close>
  securityReport :: "securityReport option"    \<comment> \<open>absent in an error response, or \<open>null\<close>\<close>

definition createErrorResponse :: "string \<Rightarrow> EXECUTION_STATUS \<Rightarrow> string \<Rightarrow> response" where
  "createErrorResponse eid st errorMessage =
     \<lparr>status = st, output' = [], error = errorMessage, exitCode = - 1,
      memoryUsage = HostMemory, success = False, executionId = eid, language = None,
      securityReport = None\<rparr>"

text \<open>
  \<open>CodeExecutionService.executeCode\<close>. Besides the request (\<open>language\<close>, \<open>src\<close> for its
  \<open>code\<close>, \<open>input\<close>) and the generated \<open>executionId\<close>, it depends on
  \<^item> \<open>lis\<close>, the state of the shared patterns, which it leaves changed;
  \<^item> \<open>exceeded\<close>: \<open>None\<close> without \<open>userInfo\<close>, else the answer of
    \<open>userInfo.hasExceededDailyLimit()\<close>;
  \<^item> \<open>session\<close>: whether \<open>sessionInfo\<close> is an object; when it is undefined, reading a
    property of it throws a \<open>TypeError\<close>, whose message for the property \<open>p\<close> is
    \<open>typeError p\<close> (the wording is the engine's): the log line of a rejected source
    reads \<open>sessionInfo.ipAddress\<close>, the one before the container service is called
    reads \<open>sessionInfo.sessionId\<close>;
  \<^item> the world of the container service;
  \<^item> \<open>saveThrows\<close>: the message, if saving the execution record throws.
  The result is the response, the new state of the patterns and the calls made; \<open>None\<close>
  when the container service never returns. Every exception of the body ends in the
  \<open>catch\<close> block, which answers with status \<open>ERROR\<close> and the message. (\<open>updateStatistics\<close>
  catches its own errors and does not touch the response; it is left out, like the log.)
\<close>

definition executeCode ::
  "settings \<Rightarrow> world \<Rightarrow> string option \<Rightarrow> bool option \<Rightarrow> bool \<Rightarrow> (string \<Rightarrow> string) \<Rightarrow> nat list
     \<Rightarrow> string \<Rightarrow> string \<Rightarrow> string \<Rightarrow> string \<Rightarrow> (response \<times> nat list \<times> effect list) option" where
  "executeCode env w saveThrows exceeded session typeError lis eid lang src input =
     (if \<not> validateLanguage lang
      then Some (createErrorResponse eid ERROR (''Unsupported language: '' @ lang), lis, [])
      else
        (let (codeValidation, lis1) = validateCode lis src lang in
         if \<not> isValid codeValidation
         then Some (createErrorResponse eid ERROR
                      (if session
                       then ''Code validation failed: '' @ joinWith '', '' (errors codeValidation)
                       else typeError ''ipAddress''),
                    lis1, [])
         else
           (let inputValidation = validateInput input in
            if \<not> isValid inputValidation
            then Some (createErrorResponse eid ERROR
                         (''Input validation failed: '' @ joinWith '', '' (errors inputValidation)),
                       lis1, [])
            else if exceeded = Some True
            then Some (createErrorResponse eid ERROR ''Daily execution limit exceeded'', lis1, [])
            else if \<not> session
            then Some (createErrorResponse eid ERROR (typeError ''sessionId''), lis1, [])
            else
              (let sanitizedCode = sanitizeCode src;
                   sanitizedInput = sanitizeInput input
               in case dockerExecuteCode env w lang sanitizedCode sanitizedInput eid of
                    None \<Rightarrow> None
                  | Some (executionResult, tr) \<Rightarrow>
                      (case saveThrows of
                         Some m \<Rightarrow> Some (createErrorResponse eid ERROR m, lis1, tr @ [SaveRecord])
                       | None \<Rightarrow>
                           (let (report, lis2) = generateSecurityReport lis1 sanitizedCode lang
                            in Some (\<lparr>status = status executionResult,
                                       output' = output' executionResult,
                                       error = error executionResult,
                                       exitCode = exitCode executionResult,
                                       memoryUsage = memoryUsage executionResult,
                                       success = True,
                                       executionId = eid,
                                       language = Some lang,
                                       securityReport =
                                         (if isSecure report then None else Some report)\<rparr>,
                                     lis2, tr @ [SaveRecord])))))))"

text \<open>The state of the patterns when the module has just been loaded.\<close>

definition freshPatterns :: "nat list" where
  "freshPatterns = map (\<lambda>p. 0) FORBIDDEN_PATTERNS"


section \<open>Example requests and worlds\<close>

text \<open>The message of the \<open>TypeError\<close> in the engine of Node.js 16 and later.\<close>

definition v8TypeError :: "string \<Rightarrow> string" where
  "v8TypeError p = ''Cannot read properties of undefined (reading '' @ [CHR 0x27] @ p @ [CHR 0x27] @ '')''"

definition defaultSettings :: settings where
  "defaultSettings = \<lparr>MAX_MEMORY = None, MAX_CPU_quota = None, DOCKER_TIMEOUT = None\<rparr>"

text \<open>A world in which no call throws: the container behaves as the events say.\<close>

definition calmWorld :: "event list \<Rightarrow> memory_stats option \<Rightarrow> world" where
  "calmWorld es st =
     \<lparr>tmpdir = ''/tmp'', mkdirThrows = None, writeCodeThrows = None, writeInputThrows = None,
      createThrows = None, containerId = ''c0ffee'', startThrows = None, events = es,
      statsReply = st\<rparr>"

definition someStats :: "memory_stats option" where
  "someStats = Some \<lparr>usage = Some 1048576, limit = Some 134217728\<rparr>"

text \<open>A Python program that prints and exits with 0.\<close>

definition helloRun :: "(response \<times> nat list \<times> effect list) option" where
  "helloRun =
     executeCode defaultSettings (calmWorld [AttachOk, Stdout ''1'', WaitReturns 0] someStats)
       None None True v8TypeError freshPatterns ''exec_1_ab'' ''python'' ''print(1)'' []"

definition helloOptions :: containerOptions where
  "helloOptions =
     buildContainerOptions (mkConfig defaultSettings ''python:3.9-alpine''
       [''python'', ''/app/main.py''] 30000) ''/tmp/code_exec_exec_1_ab'' []"


text \<open>A Python source with a NUL between \<open>imp\<close> and \<open>ort os\<close>; the program exits with 0.\<close>

definition nulSource :: string where
  "nulSource = ''imp'' @ [nul] @ ''ort os''"

definition nulRun :: "(response \<times> nat list \<times> effect list) option" where
  "nulRun =
     executeCode defaultSettings (calmWorld [AttachOk, WaitReturns 0] someStats)
       None None True v8TypeError freshPatterns ''exec_1_ab'' ''python'' nulSource []"


text \<open>
  A Python program that never ends. The timer fires and its callback calls \<open>kill\<close>; in
  \<open>timedOutRun\<close> the answer to \<open>kill\<close> comes before the answer to \<open>wait\<close>, in \<open>raceRun\<close>
  the killed container's exit (status 137) is reported by \<open>wait\<close> first.
\<close>

definition loopSource :: string where
  "loopSource = ''while True: pass''"

definition timedOutRun :: "(response \<times> nat list \<times> effect list) option" where
  "timedOutRun =
     executeCode defaultSettings (calmWorld [AttachOk, TimerFires, KillReturns, WaitReturns 137] someStats)
       None None True v8TypeError freshPatterns ''exec_1_ab'' ''python'' loopSource []"

definition raceRun :: "(response \<times> nat list \<times> effect list) option" where
  "raceRun =
     executeCode defaultSettings (calmWorld [AttachOk, TimerFires, WaitReturns 137, KillReturns] someStats)
       None None True v8TypeError freshPatterns ''exec_1_ab'' ''python'' loopSource []"

text \<open>
  A Python program that allocates until the kernel kills it (status 137); the statistics
  report a usage equal to the limit of 128 MiB.
\<close>

definition fullStats :: "memory_stats option" where
  "fullStats = Some \<lparr>usage = Some 134217728, limit = Some 134217728\<rparr>"

definition oomRun :: "(dockerResult \<times> effect list) option" where
  "oomRun =
     dockerExecuteCode defaultSettings (calmWorld [AttachOk, WaitReturns 137] fullStats)
       ''python'' ''x = [0] * (10 ** 10)'' [] ''exec_1_ab''"

definition killedRun :: "(dockerResult \<times> effect list) option" where
  "killedRun =
     dockerExecuteCode defaultSettings (calmWorld [AttachOk, TimerFires, KillReturns] fullStats)
       ''python'' loopSource [] ''exec_1_ab''"

text \<open>A C++ source that does not compile: \<open>g++\<close> writes a diagnostic and the shell exits with 1.\<close>

definition brokenCpp :: string where
  "brokenCpp = ''int main(){return''"

definition compilerMessage :: string where
  "compilerMessage = ''main.cpp:1:18: error: expected primary-expression at end of input''"

definition brokenCppRun :: "(response \<times> nat list \<times> effect list) option" where
  "brokenCppRun =
     executeCode defaultSettings (calmWorld [AttachOk, Stderr compilerMessage, WaitReturns 1] someStats)
       None None True v8TypeError freshPatterns ''exec_1_ab'' ''cpp'' brokenCpp []"


text \<open>A Java source whose public class is \<open>Solution\<close>.\<close>

definition solutionSource :: string where
  "solutionSource = ''public class Solution { public static void main(String[] a) { } }''"

definition solutionRun :: "(response \<times> nat list \<times> effect list) option" where
  "solutionRun =
     executeCode defaultSettings (calmWorld [AttachOk, WaitReturns 1] someStats)
       None None True v8TypeError freshPatterns ''exec_1_ab'' ''java'' solutionSource []"

definition javaOptions :: containerOptions where
  "javaOptions =
     buildContainerOptions (mkConfig defaultSettings ''openjdk:11-alpine''
       [''/bin/sh'', ''-c'', ''cd /app && javac Main.java && java Main''] 45000)
       ''/tmp/code_exec_exec_1_ab'' []"



section \<open>Evaluation\<close>

text \<open>The character classes on the bits of a character, as code equations.\<close>

lemma isSpace_code [code]:
  "isSpace (Char b0 b1 b2 b3 b4 b5 b6 b7) =
     (\<not> b6 \<and> \<not> b4 \<and> ((b5 \<and> \<not> b0 \<and> \<not> b1 \<and> \<not> b2 \<and> \<not> b3) \<or>
        (\<not> b7 \<and> \<not> b5 \<and> b3 \<and> (b0 \<or> b1 \<or> b2) \<and> \<not> (b1 \<and> b2))))"
  unfolding isSpace_def spaces_def
  by (cases b0; cases b1; cases b2; cases b3; cases b4; cases b5; cases b6; cases b7; simp)

lemma isDigit_code [code]:
  "isDigit (Char b0 b1 b2 b3 b4 b5 b6 b7) =
     (\<not> b7 \<and> \<not> b6 \<and> b5 \<and> b4 \<and> \<not> (b3 \<and> (b2 \<or> b1)))"
  unfolding isDigit_def digits_def
  by (cases b0; cases b1; cases b2; cases b3; cases b4; cases b5; cases b6; cases b7; simp)

lemma isWord_code [code]:
  "isWord (Char b0 b1 b2 b3 b4 b5 b6 b7) =
     (\<not> b7 \<and> ((b6 \<and> letterBits b0 b1 b2 b3 b4) \<or> (b6 \<and> \<not> b5 \<and> b4 \<and> b3 \<and> b2 \<and> b1 \<and> b0)
        \<or> (\<not> b6 \<and> b5 \<and> b4 \<and> \<not> (b3 \<and> (b2 \<or> b1)))))"
  unfolding isWord_def lowers_def uppers_def digits_def letterBits_def
  by (cases b0; cases b1; cases b2; cases b3; cases b4; cases b5; cases b6; cases b7; simp)

lemma canon_code [code]:
  "canon (Char b0 b1 b2 b3 b4 b5 b6 b7) =
     Char b0 b1 b2 b3 b4 (b5 \<and> \<not> (\<not> b7 \<and> b6 \<and> letterBits b0 b1 b2 b3 b4)) b6 b7"
  unfolding canon_def lowers_def letterBits_def
  by (cases b0; cases b1; cases b2; cases b3; cases b4; cases b5; cases b6; cases b7; simp)

lemma lowerChar_code [code]:
  "lowerChar (Char b0 b1 b2 b3 b4 b5 b6 b7) =
     Char b0 b1 b2 b3 b4 (b5 \<or> (\<not> b7 \<and> b6 \<and> letterBits b0 b1 b2 b3 b4)) b6 b7"
  unfolding lowerChar_def uppers_def letterBits_def
  by (cases b0; cases b1; cases b2; cases b3; cases b4; cases b5; cases b6; cases b7; simp)

section \<open>Calls made by the services\<close>

lemma awaitCompletion_effects:
  "awaitCompletion b t out err es = Some (s, tw) \<Longrightarrow> set tw \<subseteq> {WaitContainer, KillContainer}"
proof (induction es arbitrary: b t out err tw)
  case Nil
  then show ?case by simp
next
  case (Cons e es)
  then show ?case
    by (cases e) (fastforce split: if_splits)+
qed

lemma waitForContainerCompletion_effects:
  "waitForContainerCompletion es = Some (s, tw) \<Longrightarrow>
     set tw \<subseteq> {AttachContainer, WaitContainer, KillContainer}"
  unfolding waitForContainerCompletion_def
  by (auto dest!: awaitCompletion_effects)

lemma docker_create_options:
  assumes "dockerExecuteCode env w lang src input eid = Some (r, tr)"
    and "CreateContainer opts \<in> set tr"
  shows "\<exists>config. containerConfigs env lang = Some config \<and>
           opts = buildContainerOptions config (tempDirOf (tmpdir w) eid) input"
  using assms unfolding dockerExecuteCode_def Let_def failed_def
  by (auto split: option.splits settled.splits prod.splits if_splits
           dest!: waitForContainerCompletion_effects)

text \<open>An execution that made any call got past the three validations and the daily limit.\<close>

lemma executeCode_calls:
  assumes "executeCode env w sv ex si te lis eid lang src input = Some (r, lis', tr)"
    and "tr \<noteq> []"
  shows "\<exists>dr dtr. dockerExecuteCode env w lang (sanitizeCode src) (sanitizeInput input) eid
                     = Some (dr, dtr) \<and> tr = dtr @ [SaveRecord]
           \<and> validateLanguage lang \<and> isValid (fst (validateCode lis src lang))
           \<and> isValid (validateInput input) \<and> ex \<noteq> Some True"
  using assms unfolding executeCode_def Let_def
  by (auto split: option.splits prod.splits if_splits)

section \<open>The claims\<close>

text \<open>
  C9. Every container that an execution creates, whatever the language, the source and the
  input, is created from options with \<open>NetworkMode\<close> \<open>none\<close>, all capabilities dropped,
  \<open>no-new-privileges\<close>, a PID limit of 50, and the limits \<open>nofile\<close> 64/64 and \<open>nproc\<close>
  32/32. (\<open>NetworkMode\<close> is a field of the options themselves, the other four are fields
  of their \<open>HostConfig\<close>.)
\<close>

theorem C9_container_isolation:
  assumes "executeCode env w sv ex si te lis eid lang src input = Some (r, lis', tr)"
    and "CreateContainer opts \<in> set tr"
  shows "NetworkMode opts = ''none''
       \<and> CapDrop (HostConfig opts) = [''ALL'']
       \<and> SecurityOpt (HostConfig opts) = [''no-new-privileges'']
       \<and> PidsLimit (HostConfig opts) = 50
       \<and> Ulimits (HostConfig opts) = [\<lparr>Name = ''nofile'', Soft = 64, Hard = 64\<rparr>,
                                        \<lparr>Name = ''nproc'', Soft = 32, Hard = 32\<rparr>]"
proof -
  from assms(2) have "tr \<noteq> []" by auto
  from executeCode_calls [OF assms(1) this] obtain dr dtr where
    d: "dockerExecuteCode env w lang (sanitizeCode src) (sanitizeInput input) eid = Some (dr, dtr)"
    and tr: "tr = dtr @ [SaveRecord]" by blast
  from assms(2) tr have "CreateContainer opts \<in> set dtr" by simp
  from docker_create_options [OF d this] obtain config where
    "opts = buildContainerOptions config (tempDirOf (tmpdir w) eid) (sanitizeInput input)"
    by blast
  then show ?thesis by (simp add: buildContainerOptions_def)
qed

theorem C9_container_isolation_witness:
  "helloRun \<noteq> None
   \<and> CreateContainer helloOptions \<in> set (snd (snd (the helloRun)))
   \<and> NetworkMode helloOptions = ''none''
   \<and> CapDrop (HostConfig helloOptions) = [''ALL'']
   \<and> SecurityOpt (HostConfig helloOptions) = [''no-new-privileges'']
   \<and> PidsLimit (HostConfig helloOptions) = 50
   \<and> Ulimits (HostConfig helloOptions) = [\<lparr>Name = ''nofile'', Soft = 64, Hard = 64\<rparr>,
                                            \<lparr>Name = ''nproc'', Soft = 32, Hard = 32\<rparr>]"
proof -
  have ran: "helloRun \<noteq> None" by code_simp
  have made: "CreateContainer helloOptions \<in> set (snd (snd (the helloRun)))" by code_simp
  from ran have run:
    "executeCode defaultSettings (calmWorld [AttachOk, Stdout ''1'', WaitReturns 0] someStats)
       None None True v8TypeError freshPatterns ''exec_1_ab'' ''python'' ''print(1)'' []
     = Some (fst (the helloRun), fst (snd (the helloRun)), snd (snd (the helloRun)))"
    unfolding helloRun_def by auto
  from C9_container_isolation [OF run made] ran made show ?thesis by simp
qed

section \<open>Finding a text with a pattern\<close>

lemma matchItems_lit:
  "matchItems ic (lit p) prev (p @ rest) = Some (map (\<lambda>c. 1) p)"
  unfolding lit_def by (induction p arbitrary: prev) simp_all

lemma searchFrom_app:
  assumes "\<And>prev. matchHere re prev suf \<noteq> None"
  shows "searchFrom re prev (pre @ suf) i \<noteq> None"
proof (induction pre arbitrary: prev i)
  case Nil
  from assms [of prev] show ?case by (cases suf) auto
next
  case (Cons a pre)
  then show ?case by (simp split: option.splits)
qed

lemma testFresh_search: "testFresh re s = (searchFrom re None s 0 \<noteq> None)"
  unfolding testFresh_def testG_def execAt_def by (auto split: option.splits)

lemma testFresh_lit:
  assumes "sublist p s" and "alts re = [lit p]"
  shows "testFresh re s"
proof -
  from assms(1) obtain pre suf where s: "s = pre @ p @ suf" by (auto simp: sublist_def)
  have "\<And>prev. matchHere re prev (p @ suf) \<noteq> None"
    by (simp add: matchHere_def assms(2) matchItems_lit)
  from searchFrom_app [OF this] show ?thesis by (simp add: testFresh_search s)
qed

lemma testFresh_class:
  assumes "c \<in> set s" and "alts re = [[One cl]]" and "cmatch (ignoreCase re) cl c"
  shows "testFresh re s"
proof -
  from assms(1) obtain pre suf where s: "s = pre @ c # suf" by (auto dest: split_list)
  have "\<And>prev. matchHere re prev (c # suf) \<noteq> None"
    by (simp add: matchHere_def assms(2,3))
  from searchFrom_app [OF this] show ?thesis by (simp add: testFresh_search s)
qed

lemma malicious_found:
  assumes "CHR ''<'' \<in> set input \<or> CHR ''>'' \<in> set input \<or> nul \<in> set input
           \<or> sublist ''../'' input \<or> sublist ''javascript:'' input \<or> sublist ''data:'' input"
  shows "list_ex (\<lambda>p. testFresh p input) maliciousPatterns"
proof -
  have "testFresh (g [[One (OneOf ''<>'')]] []) input" if "CHR ''<'' \<in> set input"
    using that by (rule testFresh_class [where cl = "OneOf ''<>''"]) (simp_all add: g_def)
  moreover have "testFresh (g [[One (OneOf ''<>'')]] []) input" if "CHR ''>'' \<in> set input"
    using that by (rule testFresh_class [where cl = "OneOf ''<>''"]) (simp_all add: g_def)
  moreover have "testFresh (g [[One (Chr nul)]] []) input" if "nul \<in> set input"
    using that by (rule testFresh_class [where cl = "Chr nul"]) (simp_all add: g_def)
  moreover have "testFresh (g [lit ''../''] []) input" if "sublist ''../'' input"
    using that by (rule testFresh_lit) (simp add: g_def)
  moreover have "testFresh (gi [lit ''javascript:''] []) input" if "sublist ''javascript:'' input"
    using that by (rule testFresh_lit) (simp add: gi_def)
  moreover have "testFresh (gi [lit ''data:''] []) input" if "sublist ''data:'' input"
    using that by (rule testFresh_lit) (simp add: gi_def)
  ultimately show ?thesis using assms unfolding maliciousPatterns_def by auto
qed

lemma validateInput_malicious:
  assumes "CHR ''<'' \<in> set input \<or> CHR ''>'' \<in> set input \<or> nul \<in> set input
           \<or> sublist ''../'' input \<or> sublist ''javascript:'' input \<or> sublist ''data:'' input"
  shows "validateInput input =
           \<lparr>isValid = False,
            errors = (if MAX_INPUT_LENGTH < int (length input)
                      then [''Input exceeds maximum length of 10000 characters''] else [])
                     @ [''Input contains potentially malicious content'']\<rparr>"
proof -
  from assms have "input \<noteq> []" by (auto simp: sublist_def)
  with malicious_found [OF assms] show ?thesis by (simp add: validateInput_def Let_def)
qed

text \<open>
  C1. When the Screener rejects the source, \<open>executeCode\<close> answers at once and makes no
  call at all: no directory, no file, no container. The response is an error response
  (no success, empty output, exit code -1) with the general status \<open>ERROR\<close>; when the
  language is a supported one and the caller gave a session object, the reasons are
  joined with \<open>", "\<close> into its \<open>error\<close> text after \<open>Code validation failed: \<close>.
\<close>

theorem C1_rejected_source:
  assumes "\<not> isValid (fst (validateCode lis src lang))"
  shows "\<exists>r lis'. executeCode env w sv ex si te lis eid lang src input = Some (r, lis', [])
           \<and> status r = ERROR \<and> success r = False \<and> output' r = [] \<and> exitCode r = - 1
           \<and> memoryUsage r = HostMemory \<and> language r = None \<and> securityReport r = None
           \<and> executionId r = eid
           \<and> (validateLanguage lang \<and> si \<longrightarrow>
                error r = ''Code validation failed: ''
                          @ joinWith '', '' (errors (fst (validateCode lis src lang))))"
  using assms unfolding executeCode_def Let_def createErrorResponse_def
  by (auto split: prod.splits)

theorem C1_rejected_source_witness:
  "\<not> isValid (fst (validateCode freshPatterns ''import os'' ''python''))
   \<and> validateLanguage ''python''
   \<and> (\<exists>r lis'. executeCode defaultSettings (calmWorld [] None) None None True v8TypeError
                   freshPatterns ''exec_1_ab'' ''python'' ''import os'' [] = Some (r, lis', [])
        \<and> status r = ERROR \<and> success r = False \<and> output' r = [] \<and> exitCode r = - 1
        \<and> memoryUsage r = HostMemory \<and> language r = None \<and> securityReport r = None
        \<and> executionId r = ''exec_1_ab''
        \<and> error r = ''Code validation failed: ''
              @ joinWith '', '' (errors (fst (validateCode freshPatterns ''import os'' ''python''))))"
proof -
  have rejected: "\<not> isValid (fst (validateCode freshPatterns ''import os'' ''python''))"
    by code_simp
  have supported: "validateLanguage ''python''"
    by code_simp
  from C1_rejected_source [OF rejected, of defaultSettings "calmWorld [] None" None None True
         v8TypeError "''exec_1_ab''" "[]"] supported rejected
  show ?thesis by simp
qed

text \<open>
  The claim as stated fails: the status of a rejection by the Screener is \<open>ERROR\<close>, the
  status that a request whose source the Screener accepts gets as well when its input is
  refused. \<open>EXECUTION_STATUS\<close> has no value for a rejected source.
\<close>

theorem C1_counterexample:
  "\<not> isValid (fst (validateCode freshPatterns ''import os'' ''python''))
   \<and> map_option (\<lambda>x. status (fst x))
       (executeCode defaultSettings (calmWorld [] None) None None True v8TypeError freshPatterns
          ''exec_1_ab'' ''python'' ''import os'' []) = Some ERROR
   \<and> isValid (fst (validateCode freshPatterns ''print(1)'' ''python''))
   \<and> map_option (\<lambda>x. status (fst x))
       (executeCode defaultSettings (calmWorld [] None) None None True v8TypeError freshPatterns
          ''exec_1_ab'' ''python'' ''print(1)'' ''<'') = Some ERROR"
  by code_simp

text \<open>
  C10. A request in a supported language whose source the Screener accepts and whose
  input has at most 10,000 characters is refused when the input contains \<open><\<close>, \<open>>\<close>, a
  NUL, \<open>../\<close>, \<open>javascript:\<close> or \<open>data:\<close>: the response is the error response with the text
  \<open>Input validation failed: Input contains potentially malicious content\<close>, and no call
  has been made, so no workspace and no container exist.
\<close>

theorem C10_malicious_input:
  assumes "validateLanguage lang"
    and "isValid (fst (validateCode lis src lang))"
    and "int (length input) \<le> MAX_INPUT_LENGTH"
    and "CHR ''<'' \<in> set input \<or> CHR ''>'' \<in> set input \<or> nul \<in> set input
         \<or> sublist ''../'' input \<or> sublist ''javascript:'' input \<or> sublist ''data:'' input"
  shows "executeCode env w sv ex si te lis eid lang src input =
           Some (createErrorResponse eid ERROR
                   ''Input validation failed: Input contains potentially malicious content'',
                 snd (validateCode lis src lang), [])"
proof -
  from assms(3) validateInput_malicious [OF assms(4)]
  have "validateInput input =
          \<lparr>isValid = False, errors = [''Input contains potentially malicious content'']\<rparr>"
    by simp
  with assms(1,2) show ?thesis
    unfolding executeCode_def Let_def by (simp add: case_prod_beta)
qed

theorem C10_malicious_input_witness:
  "validateLanguage ''python''
   \<and> isValid (fst (validateCode freshPatterns ''print(1)'' ''python''))
   \<and> int (length ''a<b'') \<le> MAX_INPUT_LENGTH
   \<and> CHR ''<'' \<in> set ''a<b''
   \<and> executeCode defaultSettings (calmWorld [] None) None None True v8TypeError freshPatterns
        ''exec_1_ab'' ''python'' ''print(1)'' ''a<b'' =
       Some (createErrorResponse ''exec_1_ab'' ERROR
               ''Input validation failed: Input contains potentially malicious content'',
             snd (validateCode freshPatterns ''print(1)'' ''python''), [])"
proof -
  have supported: "validateLanguage ''python''"
    by code_simp
  have accepted: "isValid (fst (validateCode freshPatterns ''print(1)'' ''python''))"
    by code_simp
  have short: "int (length ''a<b'') \<le> MAX_INPUT_LENGTH"
    by (simp add: MAX_INPUT_LENGTH_def)
  have bad: "CHR ''<'' \<in> set ''a<b'' \<or> CHR ''>'' \<in> set ''a<b'' \<or> nul \<in> set ''a<b''
             \<or> sublist ''../'' ''a<b'' \<or> sublist ''javascript:'' ''a<b''
             \<or> sublist ''data:'' ''a<b''"
    by simp
  from C10_malicious_input [OF supported accepted short bad] supported accepted short
  show ?thesis by simp
qed

text \<open>
  The claim as stated, for every request with such an input, fails in three ways: the
  language is checked first, the source second, and an input of more than 10,000
  characters gets two reasons in its text.
\<close>

theorem C10_counterexample:
  "map_option (\<lambda>x. error (fst x))
     (executeCode defaultSettings (calmWorld [] None) None None True v8TypeError freshPatterns
        ''exec_1_ab'' ''ruby'' ''puts 1'' ''a<b'')
     = Some ''Unsupported language: ruby''
   \<and> map_option (\<lambda>x. error (fst x))
       (executeCode defaultSettings (calmWorld [] None) None None True v8TypeError freshPatterns
          ''exec_1_ab'' ''python'' ''eval(1)'' ''a<b'')
     = Some (''Code validation failed: Code contains forbidden pattern: eval''
             @ bs # ''s*'' @ bs # ''(, Dangerous function detected: eval'')
   \<and> map_option (\<lambda>x. error (fst x))
       (executeCode defaultSettings (calmWorld [] None) None None True v8TypeError freshPatterns
          ''exec_1_ab'' ''python'' ''print(1)'' (replicate 10001 (CHR ''<'')))
     = Some (''Input validation failed: Input exceeds maximum length of 10000 characters, ''
             @ ''Input contains potentially malicious content'')"
proof -
  have a: "map_option (\<lambda>x. error (fst x))
     (executeCode defaultSettings (calmWorld [] None) None None True v8TypeError freshPatterns
        ''exec_1_ab'' ''ruby'' ''puts 1'' ''a<b'')
     = Some ''Unsupported language: ruby''"
    by code_simp
  have b: "map_option (\<lambda>x. error (fst x))
       (executeCode defaultSettings (calmWorld [] None) None None True v8TypeError freshPatterns
          ''exec_1_ab'' ''python'' ''eval(1)'' ''a<b'')
     = Some (''Code validation failed: Code contains forbidden pattern: eval''
             @ bs # ''s*'' @ bs # ''(, Dangerous function detected: eval'')"
    by code_simp
  have supported: "validateLanguage ''python''"
    by code_simp
  have accepted: "isValid (fst (validateCode freshPatterns ''print(1)'' ''python''))"
    by code_simp
  have "validateInput (replicate 10001 (CHR ''<'')) =
          \<lparr>isValid = False,
           errors = [''Input exceeds maximum length of 10000 characters'',
                     ''Input contains potentially malicious content'']\<rparr>"
    by (subst validateInput_malicious) (simp_all add: MAX_INPUT_LENGTH_def)
  with supported accepted
  have c: "map_option (\<lambda>x. error (fst x))
       (executeCode defaultSettings (calmWorld [] None) None None True v8TypeError freshPatterns
          ''exec_1_ab'' ''python'' ''print(1)'' (replicate 10001 (CHR ''<'')))
     = Some (''Input validation failed: Input exceeds maximum length of 10000 characters, ''
             @ ''Input contains potentially malicious content'')"
    unfolding executeCode_def Let_def
    by (simp add: createErrorResponse_def case_prod_beta)
  from a b c show ?thesis by blast
qed

text \<open>
  C6. Two consecutive calls of \<open>validateCode\<close> with the same arguments: the first rejects
  the Python source \<open>system(1)\<close>, and leaves \<open>lastIndex = 7\<close> in the shared pattern
  \<open>/system\s*\(/gi\<close>; the second starts its search there, finds nothing and accepts.
\<close>

theorem C6_second_call_accepts:
  "(let (v1, lis1) = validateCode freshPatterns ''system(1)'' ''python'';
        (v2, lis2) = validateCode lis1 ''system(1)'' ''python''
    in v1 = \<lparr>isValid = False,
              errors = [''Code contains forbidden pattern: system'' @ bs # ''s*'' @ bs # ''('']\<rparr>
       \<and> lis1 = [0, 0, 0, 0, 0, 0, 0, 0, 0, 7, 0, 0, 0, 0, 0, 0, 0]
       \<and> v2 = \<lparr>isValid = True, errors = []\<rparr>
       \<and> lis2 = freshPatterns)"
  by code_simp

section \<open>Files written by an execution\<close>

lemma generateFileName_not_input: "generateFileName lang eid \<noteq> ''input.txt''"
  by (simp add: generateFileName_def Let_def)

lemma docker_written:
  assumes "dockerExecuteCode env w lang src input eid = Some (r, tr)"
    and "WriteFile p c \<in> set tr"
  shows "(p = pathJoin (tempDirOf (tmpdir w) eid) (generateFileName lang eid) \<and> c = src)
       \<or> (p = pathJoin (tempDirOf (tmpdir w) eid) ''input.txt'' \<and> c = input)"
  using assms unfolding dockerExecuteCode_def Let_def failed_def
  by (auto split: option.splits settled.splits prod.splits if_splits
           dest!: waitForContainerCompletion_effects)

lemma docker_writes_source:
  assumes "dockerExecuteCode env w lang src input eid = Some (r, tr)"
    and "containerConfigs env lang \<noteq> None" and "mkdirThrows w = None"
  shows "WriteFile (pathJoin (tempDirOf (tmpdir w) eid) (generateFileName lang eid)) src \<in> set tr"
  using assms unfolding dockerExecuteCode_def Let_def failed_def
  by (auto split: option.splits settled.splits prod.splits if_splits)

lemma supported_config: "validateLanguage lang \<Longrightarrow> containerConfigs env lang \<noteq> None"
  by (auto simp: validateLanguage_def SUPPORTED_LANGUAGES_def containerConfigs_def)

text \<open>
  C7. The Screener matches the source as it was submitted; NUL removal and line-ending
  normalisation (with the collapsing of blank lines and the trimming of \<open>sanitizeCode\<close>)
  come after it. Whenever an execution makes a call, the submitted source has passed the
  Screener, and the text written to the source file of the workspace is exactly
  \<open>sanitizeCode\<close> of the submitted source; it is written as soon as the workspace
  directory could be made.
\<close>

theorem C7_written_source:
  assumes "executeCode env w sv ex si te lis eid lang src input = Some (r, lis', tr)"
    and "tr \<noteq> []"
  shows "isValid (fst (validateCode lis src lang))
       \<and> (\<forall>c. WriteFile (pathJoin (tempDirOf (tmpdir w) eid) (generateFileName lang eid)) c
                 \<in> set tr \<longrightarrow> c = sanitizeCode src)
       \<and> (mkdirThrows w = None \<longrightarrow>
            WriteFile (pathJoin (tempDirOf (tmpdir w) eid) (generateFileName lang eid))
              (sanitizeCode src) \<in> set tr)"
proof -
  from executeCode_calls [OF assms] obtain dr dtr where
    d: "dockerExecuteCode env w lang (sanitizeCode src) (sanitizeInput input) eid = Some (dr, dtr)"
    and tr: "tr = dtr @ [SaveRecord]"
    and lang: "validateLanguage lang"
    and ok: "isValid (fst (validateCode lis src lang))" by blast
  have "c = sanitizeCode src"
    if "WriteFile (pathJoin (tempDirOf (tmpdir w) eid) (generateFileName lang eid)) c \<in> set tr"
    for c
  proof -
    from that tr
    have "WriteFile (pathJoin (tempDirOf (tmpdir w) eid) (generateFileName lang eid)) c \<in> set dtr"
      by simp
    from docker_written [OF d this] show ?thesis
      by (auto simp: pathJoin_def generateFileName_not_input)
  qed
  moreover have
    "WriteFile (pathJoin (tempDirOf (tmpdir w) eid) (generateFileName lang eid))
       (sanitizeCode src) \<in> set tr" if "mkdirThrows w = None"
    using docker_writes_source [OF d supported_config [OF lang] that] tr by simp
  ultimately show ?thesis using ok by blast
qed

theorem C7_written_source_witness:
  "nulRun \<noteq> None
   \<and> snd (snd (the nulRun)) \<noteq> []
   \<and> mkdirThrows (calmWorld [AttachOk, WaitReturns 0] someStats) = None
   \<and> isValid (fst (validateCode freshPatterns nulSource ''python''))
   \<and> WriteFile (pathJoin (tempDirOf (tmpdir (calmWorld [AttachOk, WaitReturns 0] someStats))
                             ''exec_1_ab'') (generateFileName ''python'' ''exec_1_ab''))
        ''import os'' \<in> set (snd (snd (the nulRun)))
   \<and> ''import os'' = sanitizeCode nulSource
   \<and> WriteFile (pathJoin (tempDirOf (tmpdir (calmWorld [AttachOk, WaitReturns 0] someStats))
                             ''exec_1_ab'') (generateFileName ''python'' ''exec_1_ab''))
        (sanitizeCode nulSource) \<in> set (snd (snd (the nulRun)))"
proof -
  have ran: "nulRun \<noteq> None" by code_simp
  have calls: "snd (snd (the nulRun)) \<noteq> []" by code_simp
  have made: "mkdirThrows (calmWorld [AttachOk, WaitReturns 0] someStats) = None"
    by (simp add: calmWorld_def)
  have written:
    "WriteFile (pathJoin (tempDirOf (tmpdir (calmWorld [AttachOk, WaitReturns 0] someStats))
                           ''exec_1_ab'') (generateFileName ''python'' ''exec_1_ab''))
       ''import os'' \<in> set (snd (snd (the nulRun)))"
    by code_simp
  from ran have run:
    "executeCode defaultSettings (calmWorld [AttachOk, WaitReturns 0] someStats)
       None None True v8TypeError freshPatterns ''exec_1_ab'' ''python'' nulSource []
     = Some (fst (the nulRun), fst (snd (the nulRun)), snd (snd (the nulRun)))"
    unfolding nulRun_def by auto
  from C7_written_source [OF run calls] ran calls made written show ?thesis by blast
qed

text \<open>
  The claim as stated fails: the Screener accepts the source with the NUL, which it would
  not do had the NUL been removed before matching; the text then written to \<open>main.py\<close> and
  run is \<open>import os\<close>, which the Screener rejects.
\<close>

theorem C7_counterexample:
  "isValid (fst (validateCode freshPatterns nulSource ''python''))
   \<and> sanitizeCode nulSource = ''import os''
   \<and> \<not> isValid (fst (validateCode freshPatterns ''import os'' ''python''))
   \<and> map_option (\<lambda>x. success (fst x)) nulRun = Some True
   \<and> WriteFile ''/tmp/code_exec_exec_1_ab/main.py'' ''import os'' \<in> set (snd (snd (the nulRun)))"
  by code_simp

section \<open>Statistics, time-out and classification\<close>

lemma awaitCompletion_resolved_waits:
  "awaitCompletion b t out err es = Some (Resolved out' err' n, tw) \<Longrightarrow>
     b = AwaitWait \<or> WaitContainer \<in> set tw"
proof (induction es arbitrary: b t out err tw)
  case Nil
  then show ?case by simp
next
  case (Cons e es)
  then show ?case
    by (cases e) (fastforce split: if_splits)+
qed

lemma waitForContainerCompletion_resolved:
  assumes "waitForContainerCompletion es = Some (Resolved out err n, tw)"
  shows "WaitContainer \<in> set tw \<and> StatsContainer \<notin> set tw"
proof -
  from assms obtain tw' where
    a: "awaitCompletion AwaitAttach Armed [] [] es = Some (Resolved out err n, tw')"
    and tw: "tw = AttachContainer # tw'"
    unfolding waitForContainerCompletion_def by auto
  from awaitCompletion_resolved_waits [OF a] have "WaitContainer \<in> set tw'" by simp
  moreover from awaitCompletion_effects [OF a] have "StatsContainer \<notin> set tw'" by auto
  ultimately show ?thesis using tw by simp
qed

text \<open>
  C2. When the container is started and \<open>wait\<close> reports its exit before the promise of
  \<open>waitForContainerCompletion\<close> is rejected, the service asks for the statistics of the
  container exactly once, after \<open>wait\<close> and before the clean-up, and the \<open>memoryUsage\<close> of
  the result is what \<open>getContainerStats\<close> makes of the answer: the reported usage and
  limit, 0 where the answer has none or the query fails. (Nothing is said here about the
  status.)
\<close>

theorem C2_statistics_once:
  assumes "started env w lang input"
    and "waitForContainerCompletion (events w) = Some (Resolved out err n, tw)"
  shows "\<exists>r pre. dockerExecuteCode env w lang src input eid
                   = Some (r, pre @ [StatsContainer, CleanupContainer,
                                     Rmdir (tempDirOf (tmpdir w) eid)])
           \<and> WaitContainer \<in> set pre \<and> StatsContainer \<notin> set pre
           \<and> memoryUsage r = getContainerStats (statsReply w)"
proof -
  from assms(1) obtain config where c: "containerConfigs env lang = Some config"
    by (auto simp: started_def)
  from waitForContainerCompletion_resolved [OF assms(2)]
  have tw: "WaitContainer \<in> set tw" "StatsContainer \<notin> set tw" by simp_all
  from assms c tw show ?thesis
    unfolding dockerExecuteCode_def started_def Let_def
    by (auto simp: append_eq_append_conv2 intro!: exI [where x = "_ @ tw"])
qed

theorem C2_statistics_once_witness:
  "started defaultSettings (calmWorld [AttachOk, WaitReturns 137] fullStats) ''python'' []
   \<and> waitForContainerCompletion (events (calmWorld [AttachOk, WaitReturns 137] fullStats))
       = Some (Resolved [] [] 137, [AttachContainer, WaitContainer])
   \<and> (\<exists>r pre. oomRun = Some (r, pre @ [StatsContainer, CleanupContainer,
                                          Rmdir (tempDirOf (tmpdir (calmWorld [AttachOk, WaitReturns 137]
                                                                       fullStats)) ''exec_1_ab'')])
         \<and> WaitContainer \<in> set pre \<and> StatsContainer \<notin> set pre
         \<and> memoryUsage r = getContainerStats (statsReply (calmWorld [AttachOk, WaitReturns 137] fullStats)))"
proof -
  have s: "started defaultSettings (calmWorld [AttachOk, WaitReturns 137] fullStats) ''python'' []"
    by code_simp
  have e: "waitForContainerCompletion (events (calmWorld [AttachOk, WaitReturns 137] fullStats))
             = Some (Resolved [] [] 137, [AttachContainer, WaitContainer])"
    by code_simp
  from C2_statistics_once [OF s e, of "''x = [0] * (10 ** 10)''" "''exec_1_ab''"] s e
  show ?thesis unfolding oomRun_def by blast
qed

text \<open>
  The claim as stated fails twice. A container that the timer's callback kills has
  terminated, but the promise is rejected, the \<open>catch\<close> block answers, and the statistics
  are never asked for: the result carries the memory of the server process. And a
  container whose usage reached its limit and that exited with 137 gets the status
  \<open>RUNTIME_ERROR\<close>: the status of a resolved run only looks at the exit code.
\<close>

theorem C2_counterexample:
  "map_option (\<lambda>x. (status (fst x), memoryUsage (fst x), KillContainer \<in> set (snd x),
                     StatsContainer \<in> set (snd x))) killedRun
     = Some (TIMEOUT, HostMemory, True, False)
   \<and> map_option (\<lambda>x. (status (fst x), exitCode (fst x), memoryUsage (fst x))) oomRun
     = Some (RUNTIME_ERROR, 137, ContainerMemory 134217728 134217728)"
  by code_simp

text \<open>
  C8. The deadline elapses while the container runs, and the callback of the timer kills
  it. When the answer to \<open>kill\<close> comes first the promise is rejected and the status is
  \<open>TIMEOUT\<close>. But the callback awaits \<open>kill\<close> before it rejects, and the killed
  container's exit makes \<open>wait\<close> return: when that answer is handled first the promise is
  resolved with status code 137, the later \<open>reject\<close> does nothing, and the caller gets
  \<open>RUNTIME_ERROR\<close>.
\<close>

theorem C8_killed_but_runtime_error:
  "map_option (\<lambda>x. (status (fst x), exitCode (fst x), KillContainer \<in> set (snd (snd x)))) raceRun
     = Some (RUNTIME_ERROR, 137, True)
   \<and> map_option (\<lambda>x. (status (fst x), exitCode (fst x), KillContainer \<in> set (snd (snd x))))
       timedOutRun
     = Some (TIMEOUT, - 1, True)"
  by code_simp

text \<open>
  C5. A C++ source that does not compile: the compile-then-run command exits with 1 and
  \<open>g++\<close> writes its diagnostic to the error channel. The status is \<open>RUNTIME_ERROR\<close>; the
  result of a resolved run never is \<open>COMPILATION_ERROR\<close>, and the diagnostic is not in it.
\<close>

theorem C5_compile_failure_is_runtime_error:
  "map_option (\<lambda>x. (status (fst x), exitCode (fst x), error (fst x))) brokenCppRun
     = Some (RUNTIME_ERROR, 1, [])"
  by code_simp

text \<open>
  C4. A Java source with \<open>public class Solution\<close>: \<open>extractClassName\<close> of the Java executor
  finds \<open>Solution\<close>, but the service that runs the request writes the source to
  \<open>Main.java\<close> and starts a container that compiles \<open>Main.java\<close> and runs \<open>Main\<close>.
\<close>

theorem C4_java_file_is_Main:
  "extractClassName solutionSource = ''Solution''
   \<and> generateFileName ''java'' ''exec_1_ab'' = ''Main.java''
   \<and> WriteFile ''/tmp/code_exec_exec_1_ab/Main.java'' solutionSource \<in> set (snd (snd (the solutionRun)))
   \<and> CreateContainer javaOptions \<in> set (snd (snd (the solutionRun)))
   \<and> Cmd javaOptions = [''/bin/sh'', ''-c'', ''cd /app && javac Main.java && java Main'']"
  by code_simp

section \<open>Output without a path\<close>











end
